theory Spec2Isabelle
  imports Complex_Main "HOL-Library.Finite_Map"
begin

section \<open>Go values used by cronprom\<close>

text \<open>
  A Go \<open>float64\<close> is read as a real number: the values reach the collector from a JSON
  document, which has no NaN and no infinity, and rounding is not part of the model.

  A Go map value is either \<open>nil\<close> or a finite table. Reading a nil map behaves as reading
  an empty table; storing into a nil map panics.
\<close>

type_synonym float64 = real

type_synonym ('k, 'v) gomap = "('k, 'v) fmap option"

definition entries :: "('k, 'v) gomap \<Rightarrow> ('k, 'v) fmap" where
  "entries m = (case m of None \<Rightarrow> fmempty | Some t \<Rightarrow> t)"

definition has_key :: "('k, 'v) gomap \<Rightarrow> 'k \<Rightarrow> bool" where
  "has_key m k = (fmlookup (entries m) k \<noteq> None)"

definition len_map :: "('k, 'v) gomap \<Rightarrow> nat" where
  "len_map m = fcard (fmdom (entries m))"

section \<open>Package config: the metric definitions and their validation\<close>

type_synonym MetricType = string

text \<open>
  Modelled from the spec: the constants \<open>MetricTypeGauge\<close>, \<open>MetricTypeCounter\<close>,
  \<open>MetricTypeHistogram\<close> and \<open>MetricTypeSummary\<close> are generated by go-enum from the
  annotation \<open>ENUM(gauge, counter, histogram, summary)\<close> on \<open>MetricType\<close>; the generated
  file is not among the sources. Each constant is the string of its name in the annotation:
  the four kinds of the specification, spelled as the shipped configuration file and the
  push command's \<open>isValidMetricType\<close> spell them.
\<close>

definition MetricTypeGauge :: MetricType where "MetricTypeGauge = ''gauge''"
definition MetricTypeCounter :: MetricType where "MetricTypeCounter = ''counter''"
definition MetricTypeHistogram :: MetricType where "MetricTypeHistogram = ''histogram''"
definition MetricTypeSummary :: MetricType where "MetricTypeSummary = ''summary''"

lemmas MetricType_defs =
  MetricTypeGauge_def MetricTypeCounter_def MetricTypeHistogram_def MetricTypeSummary_def

record MetricConfig =
  Name :: string
  Description :: string
  Type :: MetricType
  Labels :: "string list"
  DefaultValue :: float64
  Buckets :: "float64 list"
  Objectives :: "(float64, float64) gomap"

record GlobalConfig =
  Namespace :: string
  RefreshInterval :: string
  parsedInterval :: int

record Web =
  Address :: string

record Config =
  Global :: GlobalConfig
  Metrics :: "MetricConfig list"
  Web :: Web

datatype config_error =
    NamespaceEmpty
  | InvalidRefreshInterval
  | EmptyName
  | MissingBuckets string
  | MissingObjectives string
  | UnknownType MetricType string
  | DuplicateName string

text \<open>
  \<open>GlobalConfig.ParsedRefreshInterval\<close>. The standard library's \<open>time.ParseDuration\<close> is the
  parameter \<open>pd\<close> (\<open>None\<close> when it returns an error, in which case the duration it returns
  is zero). The receiver is a pointer: the parsed value is cached in the receiver, which
  is returned next to the result.
\<close>

definition ParsedRefreshInterval ::
  "(string \<Rightarrow> int option) \<Rightarrow> GlobalConfig \<Rightarrow> (config_error + int) \<times> GlobalConfig" where
  "ParsedRefreshInterval pd g =
     (if parsedInterval g \<noteq> 0 then (Inr (parsedInterval g), g)
      else case pd (RefreshInterval g) of
             None \<Rightarrow> (Inl InvalidRefreshInterval, g\<lparr>parsedInterval := 0\<rparr>)
           | Some d \<Rightarrow> (Inr d, g\<lparr>parsedInterval := d\<rparr>))"

text \<open>\<open>MetricConfig.Validate\<close>: \<open>None\<close> is the nil error.\<close>

definition MetricConfig_Validate :: "MetricConfig \<Rightarrow> config_error option" where
  "MetricConfig_Validate m =
     (if Name m = [] then Some EmptyName
      else if Type m = MetricTypeGauge \<or> Type m = MetricTypeCounter then None
      else if Type m = MetricTypeHistogram then
        (if length (Buckets m) = 0 then Some (MissingBuckets (Name m)) else None)
      else if Type m = MetricTypeSummary then
        (if len_map (Objectives m) = 0 then Some (MissingObjectives (Name m)) else None)
      else Some (UnknownType (Type m) (Name m)))"

text \<open>
  The loop of \<open>Config.Validate\<close> over \<open>c.Metrics\<close>. \<open>metricNames\<close> is the Go
  \<open>map[string]bool\<close>, read with the zero value \<open>false\<close> for an absent key. \<open>visited\<close> holds the
  slice elements already visited, each as the loop stored it back (\<open>c.Metrics[i] = metric\<close>),
  and the second component of the result is the slice as the loop leaves it.
\<close>

fun validateMetrics ::
  "(string \<Rightarrow> bool) \<Rightarrow> MetricConfig list \<Rightarrow> MetricConfig list
     \<Rightarrow> config_error option \<times> MetricConfig list" where
  "validateMetrics metricNames visited [] = (None, visited)"
| "validateMetrics metricNames visited (metric # rest) =
     (case MetricConfig_Validate metric of
        Some err \<Rightarrow> (Some err, visited @ metric # rest)
      | None \<Rightarrow>
          if metricNames (Name metric)
          then (Some (DuplicateName (Name metric)), visited @ metric # rest)
          else validateMetrics (metricNames(Name metric := True)) (visited @ [metric]) rest)"

text \<open>\<open>Config.Validate\<close>, with the configuration it leaves behind.\<close>

definition Config_Validate ::
  "(string \<Rightarrow> int option) \<Rightarrow> Config \<Rightarrow> config_error option \<times> Config" where
  "Config_Validate pd c =
     (if Namespace (Global c) = [] then (Some NamespaceEmpty, c)
      else case ParsedRefreshInterval pd (Global c) of
             (Inl err, g) \<Rightarrow> (Some err, c\<lparr>Global := g\<rparr>)
           | (Inr d, g) \<Rightarrow>
               (case validateMetrics (\<lambda>k. False) [] (Metrics c) of
                  (r, ms) \<Rightarrow> (r, c\<lparr>Global := g, Metrics := ms\<rparr>)))"

section \<open>The Prometheus client library, as the collector uses it\<close>

text \<open>
  The client library is not part of the repository. The model keeps what the collector
  relies on:
  \<^item> a metric vector holds its options, its label names and one child per combination
    of label values, created on first use;
  \<^item> \<open>With\<close> panics unless the label map has exactly as many entries as the vector has
    label names and holds every one of them;
  \<^item> \<open>Counter.Add\<close> panics on a negative value ("counter cannot decrease in value");
  \<^item> \<open>Registry.Register\<close> is a parameter \<open>reg\<close> of the functions that call it: it
    returns the new registry or the text of its error.
  A histogram or summary child is kept as the sequence of its observations, from which the
  library derives bucket counts, sums and quantiles. Other checks of the library (reserved
  label names, bucket order, the encoding of names and values) are outside the model.
\<close>

record Opts =
  opt_Namespace :: string
  opt_Name :: string
  opt_Help :: string

record HistogramOpts = Opts +
  opt_Buckets :: "float64 list"

record SummaryOpts = Opts +
  opt_Objectives :: "(float64, float64) gomap"

record ('o, 'v) MetricVec =
  vec_opts :: 'o
  vec_labels :: "string list"
  vec_children :: "string list \<rightharpoonup> 'v"

type_synonym GaugeVec = "(Opts, float64) MetricVec"
type_synonym CounterVec = "(Opts, float64) MetricVec"
type_synonym HistogramVec = "(HistogramOpts, float64 list) MetricVec"
type_synonym SummaryVec = "(SummaryOpts, float64 list) MetricVec"

datatype Collector =
    GaugeC GaugeVec
  | CounterC CounterVec
  | HistogramC HistogramVec
  | SummaryC SummaryVec

datatype panic = NilMapAssignment | LabelMismatch | CounterDecrease

definition NewVec :: "'o \<Rightarrow> string list \<Rightarrow> ('o, 'v) MetricVec" where
  "NewVec opts labelNames =
     \<lparr>vec_opts = opts, vec_labels = labelNames, vec_children = Map.empty\<rparr>"

text \<open>
  \<open>With\<close>: the key of the child is the list of label values in the order of the vector's
  label names; \<open>zero\<close> is the state of a child just created.
\<close>

definition label_values :: "string list \<Rightarrow> (string, string) gomap \<Rightarrow> string list" where
  "label_values names labels = map (\<lambda>l. the (fmlookup (entries labels) l)) names"

definition With ::
  "('o, 'v) MetricVec \<Rightarrow> 'v \<Rightarrow> (string, string) gomap
     \<Rightarrow> panic + string list \<times> ('o, 'v) MetricVec" where
  "With vec zero labels =
     (if len_map labels \<noteq> length (vec_labels vec) then Inl LabelMismatch
      else if \<not> list_all (has_key labels) (vec_labels vec) then Inl LabelMismatch
      else let key = label_values (vec_labels vec) labels
           in Inr (key, case vec_children vec key of
                          None \<Rightarrow> vec\<lparr>vec_children := (vec_children vec)(key \<mapsto> zero)\<rparr>
                        | Some existing \<Rightarrow> vec))"

definition child :: "('o, 'v) MetricVec \<Rightarrow> string list \<Rightarrow> 'v \<Rightarrow> 'v" where
  "child vec key zero = (case vec_children vec key of None \<Rightarrow> zero | Some v \<Rightarrow> v)"

definition put_child :: "('o, 'v) MetricVec \<Rightarrow> string list \<Rightarrow> 'v \<Rightarrow> ('o, 'v) MetricVec" where
  "put_child vec key v = vec\<lparr>vec_children := (vec_children vec)(key \<mapsto> v)\<rparr>"

text \<open>
  \<open>prometheus.BuildFQName\<close> joins the non-empty parts of a name with underscores.
\<close>

definition BuildFQName :: "string \<Rightarrow> string \<Rightarrow> string \<Rightarrow> string" where
  "BuildFQName namespace subsystem name =
     (if name = [] then []
      else if namespace \<noteq> [] \<and> subsystem \<noteq> [] then namespace @ ''_'' @ subsystem @ ''_'' @ name
      else if namespace \<noteq> [] then namespace @ ''_'' @ name
      else if subsystem \<noteq> [] then subsystem @ ''_'' @ name
      else name)"

section \<open>Package config: the metric factory\<close>

text \<open>
  \<open>sanitizeMetricName\<close> maps the runes of the name with \<open>strings.Map\<close>. A Go string is a
  sequence of bytes; ranging over it decodes UTF-8, and a byte that starts no valid
  encoding is one rune (the replacement character) of width one. \<open>rune_width\<close> is the
  width of the first rune of a non-empty string under that decoding. Every rune that is
  not an ASCII letter, digit or underscore becomes one underscore.
\<close>

definition byte :: "char \<Rightarrow> nat" where
  "byte c = of_char c"

definition continuation :: "char \<Rightarrow> bool" where
  "continuation c = (0x80 \<le> byte c \<and> byte c \<le> 0xBF)"

fun rune_width :: "string \<Rightarrow> nat" where
  "rune_width [] = 0"
| "rune_width (s0 # rest) =
     (let b = byte s0 in
      if b < 0x80 then 1
      else if b < 0xC2 \<or> 0xF4 < b then 1
      else
        let sz = (if b < 0xE0 then 2 else if b < 0xF0 then 3 else 4 :: nat);
            lo = (if b = 0xE0 then 0xA0 else if b = 0xF0 then 0x90 else 0x80 :: nat);
            hi = (if b = 0xED then 0x9F else if b = 0xF4 then 0x8F else 0xBF :: nat)
        in if length (s0 # rest) < sz then 1
           else if byte (rest ! 0) < lo \<or> hi < byte (rest ! 0) then 1
           else if sz \<le> 2 then 2
           else if \<not> continuation (rest ! 1) then 1
           else if sz \<le> 3 then 3
           else if \<not> continuation (rest ! 2) then 1
           else 4)"

definition keep_rune :: "char \<Rightarrow> bool" where
  "keep_rune r =
     ((byte CHR ''a'' \<le> byte r \<and> byte r \<le> byte CHR ''z'')
      \<or> (byte CHR ''A'' \<le> byte r \<and> byte r \<le> byte CHR ''Z'')
      \<or> (byte CHR ''0'' \<le> byte r \<and> byte r \<le> byte CHR ''9'')
      \<or> r = CHR ''_'')"

function map_runes :: "string \<Rightarrow> string" where
  "map_runes [] = []"
| "map_runes (s0 # rest) =
     (if byte s0 < 0x80
      then (if keep_rune s0 then s0 else CHR ''_'') # map_runes rest
      else CHR ''_'' # map_runes (drop (rune_width (s0 # rest) - 1) rest))"
  by pat_completeness auto
termination
  by (relation "measure length") auto

definition sanitizeMetricName :: "string \<Rightarrow> string" where
  "sanitizeMetricName name =
     (let sanitized = map_runes name
      in if length sanitized > 0 \<and> byte CHR ''0'' \<le> byte (sanitized ! 0)
            \<and> byte (sanitized ! 0) \<le> byte CHR ''9''
         then CHR ''_'' # sanitized
         else sanitized)"

text \<open>
  \<open>MetricFactory.CreateMetric\<close>. No other function of the sources calls it: the server
  builds its metrics with the collector of the next section. A metric without labels is a
  single child; the result is the metric and the registry after \<open>Register\<close>.
\<close>

datatype Metric =
    GaugeM Opts float64
  | GaugeVecM GaugeVec
  | CounterM Opts float64
  | CounterVecM CounterVec
  | HistogramM HistogramOpts "float64 list"
  | HistogramVecM HistogramVec
  | SummaryM SummaryOpts "float64 list"
  | SummaryVecM SummaryVec

record 'r MetricFactory =
  f_namespace :: string
  f_registry :: 'r

datatype factory_error =
    FactoryUnsupportedType MetricType
  | FactoryRegisterFailed string string

definition DefaultObjectives :: "(float64, float64) gomap" where
  "DefaultObjectives = Some (fmupd 0.5 0.05 (fmupd 0.9 0.01 (fmupd 0.99 0.001 fmempty)))"

definition registered ::
  "('r \<Rightarrow> Metric \<Rightarrow> string + 'r) \<Rightarrow> 'r MetricFactory \<Rightarrow> MetricConfig \<Rightarrow> Metric
     \<Rightarrow> factory_error + Metric \<times> 'r" where
  "registered reg f metricConfig metric =
     (case reg (f_registry f) metric of
        Inl err \<Rightarrow> Inl (FactoryRegisterFailed (Name metricConfig) err)
      | Inr r \<Rightarrow> Inr (metric, r))"

definition CreateMetric ::
  "('r \<Rightarrow> Metric \<Rightarrow> string + 'r) \<Rightarrow> 'r MetricFactory \<Rightarrow> MetricConfig
     \<Rightarrow> factory_error + Metric \<times> 'r" where
  "CreateMetric reg f metricConfig =
     (let metricName = sanitizeMetricName (Name metricConfig);
          fullName = BuildFQName (f_namespace f) [] metricName;
          labelNames = Labels metricConfig;
          opts = \<lparr>opt_Namespace = [], opt_Name = fullName, opt_Help = Description metricConfig\<rparr>
      in
      if Type metricConfig = MetricTypeGauge then
        (if length labelNames = 0
         then registered reg f metricConfig
                (GaugeM opts (if DefaultValue metricConfig \<noteq> 0
                              then DefaultValue metricConfig else 0))
         else registered reg f metricConfig (GaugeVecM (NewVec opts labelNames)))
      else if Type metricConfig = MetricTypeCounter then
        (if length labelNames = 0
         then registered reg f metricConfig (CounterM opts 0)
         else registered reg f metricConfig (CounterVecM (NewVec opts labelNames)))
      else if Type metricConfig = MetricTypeHistogram then
        (let hopts = \<lparr>opt_Namespace = [], opt_Name = fullName,
                      opt_Help = Description metricConfig, opt_Buckets = Buckets metricConfig\<rparr>
         in if length labelNames = 0
            then registered reg f metricConfig (HistogramM hopts [])
            else registered reg f metricConfig (HistogramVecM (NewVec hopts labelNames)))
      else if Type metricConfig = MetricTypeSummary then
        (let objectives = (if Objectives metricConfig = None then DefaultObjectives
                           else Objectives metricConfig);
             sopts = \<lparr>opt_Namespace = [], opt_Name = fullName,
                      opt_Help = Description metricConfig, opt_Objectives = objectives\<rparr>
         in if length labelNames = 0
            then registered reg f metricConfig (SummaryM sopts [])
            else registered reg f metricConfig (SummaryVecM (NewVec sopts labelNames)))
      else Inl (FactoryUnsupportedType (Type metricConfig)))"

section \<open>Package collector\<close>

record 'r MetricCollector =
  config :: Config
  registry :: 'r
  gauges :: "string \<rightharpoonup> GaugeVec"
  counters :: "string \<rightharpoonup> CounterVec"
  histograms :: "string \<rightharpoonup> HistogramVec"
  summaries :: "string \<rightharpoonup> SummaryVec"

datatype collector_error =
    ConfigNil
  | RegisterFailed MetricType string string
  | UnsupportedType MetricType
  | KindNotFound MetricType string
  | MetricNotFound string

text \<open>
  The errors are the values of the code's \<open>errors.New\<close> and \<open>fmt.Errorf\<close> calls:
  \<open>ConfigNil\<close> is "config cannot be nil", \<open>RegisterFailed k n e\<close> is
  "failed to register k 'n': e", \<open>UnsupportedType t\<close> is "unsupported metric type: t",
  \<open>KindNotFound k n\<close> is "k metric 'n' not found" and \<open>MetricNotFound n\<close> is
  "metric 'n' not found".

  A call returns a value, returns an error, or panics.
\<close>

datatype 'a result = Ok 'a | Err collector_error | Panic panic

definition Filler :: string where
  "Filler = ''<missing>''"

text \<open>
  \<open>cleanLabels\<close>, first inner loop: every declared label the map lacks is stored with the
  filler. The map is the caller's and is changed in place; the model returns it. The log
  lines are not modelled.
\<close>

fun fillMissing :: "string list \<Rightarrow> (string, string) gomap \<Rightarrow> panic + (string, string) gomap" where
  "fillMissing [] labels = Inr labels"
| "fillMissing (label # rest) labels =
     (if has_key labels label then fillMissing rest labels
      else case labels of
             None \<Rightarrow> Inl NilMapAssignment
           | Some t \<Rightarrow> fillMissing rest (Some (fmupd label Filler t)))"

text \<open>\<open>maps.DeleteFunc\<close> with the predicate "not among the declared labels".\<close>

definition removeExtra :: "string list \<Rightarrow> (string, string) gomap \<Rightarrow> (string, string) gomap" where
  "removeExtra declared labels = map_option (fmfilter (\<lambda>key. key \<in> set declared)) labels"

fun cleanLabelsIn ::
  "MetricConfig list \<Rightarrow> string \<Rightarrow> (string, string) gomap \<Rightarrow> (string, string) gomap result" where
  "cleanLabelsIn [] metricName labels = Err (MetricNotFound metricName)"
| "cleanLabelsIn (metricCfg # rest) metricName labels =
     (if Name metricCfg = metricName then
        (case fillMissing (Labels metricCfg) labels of
           Inl p \<Rightarrow> Panic p
         | Inr filled \<Rightarrow> Ok (removeExtra (Labels metricCfg) filled))
      else cleanLabelsIn rest metricName labels)"

definition cleanLabels ::
  "'r MetricCollector \<Rightarrow> string \<Rightarrow> (string, string) gomap \<Rightarrow> (string, string) gomap result" where
  "cleanLabels c metricName labels = cleanLabelsIn (Metrics (config c)) metricName labels"

text \<open>\<open>registerMetric\<close>. A failure leaves no collector behind: the caller returns nil.\<close>

definition registerMetric ::
  "('r \<Rightarrow> Collector \<Rightarrow> string + 'r) \<Rightarrow> 'r MetricCollector \<Rightarrow> MetricConfig
     \<Rightarrow> collector_error + 'r MetricCollector" where
  "registerMetric reg c metricCfg =
     (let namespace = Namespace (Global (config c));
          metricName = Name metricCfg
      in
      if Type metricCfg = MetricTypeGauge then
        (let opts = \<lparr>opt_Namespace = namespace, opt_Name = metricName,
                     opt_Help = Description metricCfg\<rparr>;
             gaugeVec = NewVec opts (Labels metricCfg)
         in case reg (registry c) (GaugeC gaugeVec) of
              Inl err \<Rightarrow> Inl (RegisterFailed ''gauge'' metricName err)
            | Inr r \<Rightarrow> Inr (c\<lparr>registry := r, gauges := (gauges c)(metricName \<mapsto> gaugeVec)\<rparr>))
      else if Type metricCfg = MetricTypeCounter then
        (let opts = \<lparr>opt_Namespace = namespace, opt_Name = metricName,
                     opt_Help = Description metricCfg\<rparr>;
             counterVec = NewVec opts (Labels metricCfg)
         in case reg (registry c) (CounterC counterVec) of
              Inl err \<Rightarrow> Inl (RegisterFailed ''counter'' metricName err)
            | Inr r \<Rightarrow> Inr (c\<lparr>registry := r, counters := (counters c)(metricName \<mapsto> counterVec)\<rparr>))
      else if Type metricCfg = MetricTypeHistogram then
        (let opts = \<lparr>opt_Namespace = namespace, opt_Name = metricName,
                     opt_Help = Description metricCfg, opt_Buckets = Buckets metricCfg\<rparr>;
             histogramVec = NewVec opts (Labels metricCfg)
         in case reg (registry c) (HistogramC histogramVec) of
              Inl err \<Rightarrow> Inl (RegisterFailed ''histogram'' metricName err)
            | Inr r \<Rightarrow>
                Inr (c\<lparr>registry := r, histograms := (histograms c)(metricName \<mapsto> histogramVec)\<rparr>))
      else if Type metricCfg = MetricTypeSummary then
        (let opts = \<lparr>opt_Namespace = namespace, opt_Name = metricName,
                     opt_Help = Description metricCfg, opt_Objectives = Objectives metricCfg\<rparr>;
             summaryVec = NewVec opts (Labels metricCfg)
         in case reg (registry c) (SummaryC summaryVec) of
              Inl err \<Rightarrow> Inl (RegisterFailed ''summary'' metricName err)
            | Inr r \<Rightarrow>
                Inr (c\<lparr>registry := r, summaries := (summaries c)(metricName \<mapsto> summaryVec)\<rparr>))
      else Inl (UnsupportedType (Type metricCfg)))"

text \<open>\<open>registerMetrics\<close>: the loop over \<open>c.config.Metrics\<close>, stopping at the first error.\<close>

fun registerMetricsFrom ::
  "('r \<Rightarrow> Collector \<Rightarrow> string + 'r) \<Rightarrow> 'r MetricCollector \<Rightarrow> MetricConfig list
     \<Rightarrow> collector_error + 'r MetricCollector" where
  "registerMetricsFrom reg c [] = Inr c"
| "registerMetricsFrom reg c (metricCfg # rest) =
     (case registerMetric reg c metricCfg of
        Inl err \<Rightarrow> Inl err
      | Inr c' \<Rightarrow> registerMetricsFrom reg c' rest)"

definition registerMetrics ::
  "('r \<Rightarrow> Collector \<Rightarrow> string + 'r) \<Rightarrow> 'r MetricCollector
     \<Rightarrow> collector_error + 'r MetricCollector" where
  "registerMetrics reg c = registerMetricsFrom reg c (Metrics (config c))"

text \<open>\<open>NewMetricCollector\<close>: \<open>cfg\<close> is a pointer, \<open>None\<close> when nil.\<close>

definition NewMetricCollector ::
  "('r \<Rightarrow> Collector \<Rightarrow> string + 'r) \<Rightarrow> Config option \<Rightarrow> 'r
     \<Rightarrow> collector_error + 'r MetricCollector" where
  "NewMetricCollector reg cfg r =
     (case cfg of
        None \<Rightarrow> Inl ConfigNil
      | Some cf \<Rightarrow>
          registerMetrics reg
            \<lparr>config = cf, registry = r, gauges = Map.empty, counters = Map.empty,
             histograms = Map.empty, summaries = Map.empty\<rparr>)"

text \<open>
  The four update operations. Each returns its outcome and the collector it leaves. The
  read lock around the map lookup has no effect on a single caller and is not modelled.
\<close>

definition UpdateGauge ::
  "'r MetricCollector \<Rightarrow> string \<Rightarrow> float64 \<Rightarrow> (string, string) gomap
     \<Rightarrow> unit result \<times> 'r MetricCollector" where
  "UpdateGauge c name v labels =
     (case gauges c name of
        None \<Rightarrow> (Err (KindNotFound ''gauge'' name), c)
      | Some gauge \<Rightarrow>
          (case cleanLabels c name labels of
             Err e \<Rightarrow> (Err e, c)
           | Panic p \<Rightarrow> (Panic p, c)
           | Ok labelsWithFillers \<Rightarrow>
               (case With gauge 0 labelsWithFillers of
                  Inl p \<Rightarrow> (Panic p, c)
                | Inr (key, gauge') \<Rightarrow>
                    (Ok (), c\<lparr>gauges := (gauges c)(name \<mapsto> put_child gauge' key v)\<rparr>))))"

definition IncrementCounterBy ::
  "'r MetricCollector \<Rightarrow> string \<Rightarrow> float64 \<Rightarrow> (string, string) gomap
     \<Rightarrow> unit result \<times> 'r MetricCollector" where
  "IncrementCounterBy c name v labels =
     (case counters c name of
        None \<Rightarrow> (Err (KindNotFound ''counter'' name), c)
      | Some counter \<Rightarrow>
          (case cleanLabels c name labels of
             Err e \<Rightarrow> (Err e, c)
           | Panic p \<Rightarrow> (Panic p, c)
           | Ok labelsWithFillers \<Rightarrow>
               (case With counter 0 labelsWithFillers of
                  Inl p \<Rightarrow> (Panic p, c)
                | Inr (key, counter') \<Rightarrow>
                    if v < 0
                    then (Panic CounterDecrease, c\<lparr>counters := (counters c)(name \<mapsto> counter')\<rparr>)
                    else (Ok (), c\<lparr>counters := (counters c)
                                  (name \<mapsto> put_child counter' key (child counter' key 0 + v))\<rparr>))))"

definition IncrementCounter ::
  "'r MetricCollector \<Rightarrow> string \<Rightarrow> (string, string) gomap \<Rightarrow> unit result \<times> 'r MetricCollector" where
  "IncrementCounter c name labels = IncrementCounterBy c name 1 labels"

definition ObserveHistogram ::
  "'r MetricCollector \<Rightarrow> string \<Rightarrow> float64 \<Rightarrow> (string, string) gomap
     \<Rightarrow> unit result \<times> 'r MetricCollector" where
  "ObserveHistogram c name v labels =
     (case histograms c name of
        None \<Rightarrow> (Err (KindNotFound ''histogram'' name), c)
      | Some histogram \<Rightarrow>
          (case cleanLabels c name labels of
             Err e \<Rightarrow> (Err e, c)
           | Panic p \<Rightarrow> (Panic p, c)
           | Ok labelsWithFillers \<Rightarrow>
               (case With histogram [] labelsWithFillers of
                  Inl p \<Rightarrow> (Panic p, c)
                | Inr (key, histogram') \<Rightarrow>
                    (Ok (), c\<lparr>histograms := (histograms c)
                                (name \<mapsto> put_child histogram' key (child histogram' key [] @ [v]))\<rparr>))))"

definition ObserveSummary ::
  "'r MetricCollector \<Rightarrow> string \<Rightarrow> float64 \<Rightarrow> (string, string) gomap
     \<Rightarrow> unit result \<times> 'r MetricCollector" where
  "ObserveSummary c name v labels =
     (case summaries c name of
        None \<Rightarrow> (Err (KindNotFound ''summary'' name), c)
      | Some summary \<Rightarrow>
          (case cleanLabels c name labels of
             Err e \<Rightarrow> (Err e, c)
           | Panic p \<Rightarrow> (Panic p, c)
           | Ok labelsWithFillers \<Rightarrow>
               (case With summary [] labelsWithFillers of
                  Inl p \<Rightarrow> (Panic p, c)
                | Inr (key, summary') \<Rightarrow>
                    (Ok (), c\<lparr>summaries := (summaries c)
                                (name \<mapsto> put_child summary' key (child summary' key [] @ [v]))\<rparr>))))"

text \<open>
  A call of one of the update operations, and a sequence of such calls made one after
  the other on the same collector (as the HTTP handler does, one request at a time). The
  outcomes are collected in order; a panic ends the call it occurs in, not the sequence.
\<close>

datatype call =
    CallUpdateGauge string float64 "(string, string) gomap"
  | CallIncrementCounter string "(string, string) gomap"
  | CallIncrementCounterBy string float64 "(string, string) gomap"
  | CallObserveHistogram string float64 "(string, string) gomap"
  | CallObserveSummary string float64 "(string, string) gomap"

fun perform :: "'r MetricCollector \<Rightarrow> call \<Rightarrow> unit result \<times> 'r MetricCollector" where
  "perform c (CallUpdateGauge name v labels) = UpdateGauge c name v labels"
| "perform c (CallIncrementCounter name labels) = IncrementCounter c name labels"
| "perform c (CallIncrementCounterBy name v labels) = IncrementCounterBy c name v labels"
| "perform c (CallObserveHistogram name v labels) = ObserveHistogram c name v labels"
| "perform c (CallObserveSummary name v labels) = ObserveSummary c name v labels"

fun run :: "'r MetricCollector \<Rightarrow> call list \<Rightarrow> unit result list \<times> 'r MetricCollector" where
  "run c [] = ([], c)"
| "run c (x # xs) =
     (case perform c x of
        (r, c') \<Rightarrow> (case run c' xs of (rs, c'') \<Rightarrow> (r # rs, c'')))"

fun call_kind :: "call \<Rightarrow> MetricType" where
  "call_kind (CallUpdateGauge name v labels) = ''gauge''"
| "call_kind (CallIncrementCounter name labels) = ''counter''"
| "call_kind (CallIncrementCounterBy name v labels) = ''counter''"
| "call_kind (CallObserveHistogram name v labels) = ''histogram''"
| "call_kind (CallObserveSummary name v labels) = ''summary''"

fun call_name :: "call \<Rightarrow> string" where
  "call_name (CallUpdateGauge name v labels) = name"
| "call_name (CallIncrementCounter name labels) = name"
| "call_name (CallIncrementCounterBy name v labels) = name"
| "call_name (CallObserveHistogram name v labels) = name"
| "call_name (CallObserveSummary name v labels) = name"

text \<open>
  The label names under which a name is registered in the map of a kind, if it is. What a
  reader of the metrics endpoint can see of a collector: the registry and the four maps.
\<close>

definition declared :: "'r MetricCollector \<Rightarrow> MetricType \<Rightarrow> string \<Rightarrow> string list option" where
  "declared c k name =
     (if k = MetricTypeGauge then map_option vec_labels (gauges c name)
      else if k = MetricTypeCounter then map_option vec_labels (counters c name)
      else if k = MetricTypeHistogram then map_option vec_labels (histograms c name)
      else if k = MetricTypeSummary then map_option vec_labels (summaries c name)
      else None)"

definition observable ::
  "'r MetricCollector \<Rightarrow>
     'r \<times> (string \<rightharpoonup> GaugeVec) \<times> (string \<rightharpoonup> CounterVec)
        \<times> (string \<rightharpoonup> HistogramVec) \<times> (string \<rightharpoonup> SummaryVec)" where
  "observable c = (registry c, gauges c, counters c, histograms c, summaries c)"

section \<open>Notions used to state the properties\<close>

text \<open>
  A definition offends, given the names of the definitions before it, when its name is
  empty, it is a histogram without buckets, it is a summary without objectives, its kind
  is none of the four, or its name is among the earlier ones. \<open>offence_error\<close> is the
  error reported for an offending definition.
\<close>

definition known :: "MetricType set" where
  "known = {MetricTypeGauge, MetricTypeCounter, MetricTypeHistogram, MetricTypeSummary}"

definition offends :: "string set \<Rightarrow> MetricConfig \<Rightarrow> bool" where
  "offends earlier_names m =
     (Name m = []
      \<or> (Type m = MetricTypeHistogram \<and> Buckets m = [])
      \<or> (Type m = MetricTypeSummary \<and> len_map (Objectives m) = 0)
      \<or> Type m \<notin> {MetricTypeGauge, MetricTypeCounter, MetricTypeHistogram, MetricTypeSummary}
      \<or> Name m \<in> earlier_names)"

definition offence_error :: "MetricConfig \<Rightarrow> config_error" where
  "offence_error m =
     (if Name m = [] then EmptyName
      else if Type m = MetricTypeHistogram \<and> Buckets m = [] then MissingBuckets (Name m)
      else if Type m = MetricTypeSummary \<and> len_map (Objectives m) = 0
        then MissingObjectives (Name m)
      else if Type m \<notin> {MetricTypeGauge, MetricTypeCounter, MetricTypeHistogram, MetricTypeSummary}
        then UnknownType (Type m) (Name m)
      else DuplicateName (Name m))"

definition earlier :: "MetricConfig list \<Rightarrow> nat \<Rightarrow> string set" where
  "earlier ms i = Name ` set (take i ms)"

text \<open>The names present in any of the four maps of a collector.\<close>

definition registered_names :: "'r MetricCollector \<Rightarrow> string set" where
  "registered_names c =
     dom (gauges c) \<union> dom (counters c) \<union> dom (histograms c) \<union> dom (summaries c)"

text \<open>
  Increments of a counter: the amount a call adds, its label map, and the calls that
  increment the counter \<open>name\<close> by a non-negative amount with labels that normalise to
  the combination \<open>combo\<close>. \<open>counter_value\<close> reads the accumulated value of a combination,
  zero while the combination has no child.
\<close>

fun delta :: "call \<Rightarrow> float64" where
  "delta (CallIncrementCounter name labels) = 1"
| "delta (CallIncrementCounterBy name v labels) = v"
| "delta (CallUpdateGauge name v labels) = 0"
| "delta (CallObserveHistogram name v labels) = 0"
| "delta (CallObserveSummary name v labels) = 0"

fun call_labels :: "call \<Rightarrow> (string, string) gomap" where
  "call_labels (CallUpdateGauge name v labels) = labels"
| "call_labels (CallIncrementCounter name labels) = labels"
| "call_labels (CallIncrementCounterBy name v labels) = labels"
| "call_labels (CallObserveHistogram name v labels) = labels"
| "call_labels (CallObserveSummary name v labels) = labels"

fun is_increment :: "call \<Rightarrow> bool" where
  "is_increment (CallIncrementCounter name labels) = True"
| "is_increment (CallIncrementCounterBy name v labels) = True"
| "is_increment x = False"

definition increment_against ::
  "'r MetricCollector \<Rightarrow> string \<Rightarrow> (string, string) gomap \<Rightarrow> call \<Rightarrow> bool" where
  "increment_against c name combo x =
     (is_increment x \<and> call_name x = name \<and> 0 \<le> delta x \<and>
      cleanLabels c name (call_labels x) = Ok combo)"


text \<open>
  Two configurations are identical except for the default values of their gauge
  definitions when erasing those values makes them equal.
\<close>

definition erase_default :: "MetricConfig \<Rightarrow> MetricConfig" where
  "erase_default m = (if Type m = MetricTypeGauge then m\<lparr>DefaultValue := 0\<rparr> else m)"

definition erase_defaults :: "Config \<Rightarrow> Config" where
  "erase_defaults cfg = cfg\<lparr>Metrics := map erase_default (Metrics cfg)\<rparr>"

definition strip :: "'r MetricCollector \<Rightarrow> 'r MetricCollector" where
  "strip c = c\<lparr>config := erase_defaults (config c)\<rparr>"

section \<open>Example inputs\<close>

text \<open>
  A registry for the examples: the fully-qualified names registered so far. It refuses a
  collector whose fully-qualified name is already registered, as the library does.
\<close>

type_synonym Registry = "string list"

fun collector_fqName :: "Collector \<Rightarrow> string" where
  "collector_fqName (GaugeC v) = BuildFQName (opt_Namespace (vec_opts v)) [] (opt_Name (vec_opts v))"
| "collector_fqName (CounterC v) = BuildFQName (opt_Namespace (vec_opts v)) [] (opt_Name (vec_opts v))"
| "collector_fqName (HistogramC v) = BuildFQName (opt_Namespace (vec_opts v)) [] (opt_Name (vec_opts v))"
| "collector_fqName (SummaryC v) = BuildFQName (opt_Namespace (vec_opts v)) [] (opt_Name (vec_opts v))"

definition Register :: "Registry \<Rightarrow> Collector \<Rightarrow> string + Registry" where
  "Register r col =
     (if collector_fqName col \<in> set r
      then Inl ''duplicate metrics collector registration attempted''
      else Inr (r @ [collector_fqName col]))"

text \<open>The configuration file shipped with the sources, and the collector built from it.\<close>

definition job_last_success :: MetricConfig where
  "job_last_success =
     \<lparr>Name = ''job_last_success'',
      Description = ''Timestamp of the last successful job execution'',
      Type = ''gauge'', Labels = [''job_name'', ''environment''], DefaultValue = 0,
      Buckets = [], Objectives = None\<rparr>"

definition job_duration_seconds :: MetricConfig where
  "job_duration_seconds =
     \<lparr>Name = ''job_duration_seconds'',
      Description = ''Duration of job execution in seconds'',
      Type = ''histogram'', Labels = [''job_name'', ''environment''], DefaultValue = 0,
      Buckets = [0.1, 0.5, 1, 5, 10, 30, 60, 300, 600], Objectives = None\<rparr>"

definition job_failures_total :: MetricConfig where
  "job_failures_total =
     \<lparr>Name = ''job_failures_total'',
      Description = ''Total number of job failures'',
      Type = ''counter'', Labels = [''job_name'', ''environment'', ''error_type''],
      DefaultValue = 0, Buckets = [], Objectives = None\<rparr>"

definition example_config :: Config where
  "example_config =
     \<lparr>Global = \<lparr>Namespace = ''cron_monitor'', RefreshInterval = ''30s'', parsedInterval = 0\<rparr>,
      Metrics = [job_last_success, job_duration_seconds, job_failures_total],
      Web = \<lparr>Address = '':8080''\<rparr>\<rparr>"

definition example_collector :: "Registry MetricCollector" where
  "example_collector =
     \<lparr>config = example_config,
      registry = [''cron_monitor_job_last_success'', ''cron_monitor_job_duration_seconds'',
                  ''cron_monitor_job_failures_total''],
      gauges = [''job_last_success'' \<mapsto>
        NewVec \<lparr>opt_Namespace = ''cron_monitor'', opt_Name = ''job_last_success'',
                opt_Help = ''Timestamp of the last successful job execution''\<rparr>
          [''job_name'', ''environment'']],
      counters = [''job_failures_total'' \<mapsto>
        NewVec \<lparr>opt_Namespace = ''cron_monitor'', opt_Name = ''job_failures_total'',
                opt_Help = ''Total number of job failures''\<rparr>
          [''job_name'', ''environment'', ''error_type'']],
      histograms = [''job_duration_seconds'' \<mapsto>
        NewVec \<lparr>opt_Namespace = ''cron_monitor'', opt_Name = ''job_duration_seconds'',
                opt_Help = ''Duration of job execution in seconds'',
                opt_Buckets = [0.1, 0.5, 1, 5, 10, 30, 60, 300, 600]\<rparr>
          [''job_name'', ''environment'']],
      summaries = Map.empty\<rparr>"

text \<open>A duration parser that knows the interval of the example configuration.\<close>

definition parse_30s :: "string \<Rightarrow> int option" where
  "parse_30s s = (if s = ''30s'' then Some 30000000000 else None)"

text \<open>
  Further inputs: the example configuration with its first definition repeated, the same
  configuration with a default value on its gauge, a configuration whose only metric has a
  colon in its name (with the collector built from it), a summary definition without
  objectives, and two label maps for \<open>job_failures_total\<close> that name the same combination.
\<close>

definition duplicate_config :: Config where
  "duplicate_config =
     example_config\<lparr>Metrics := [job_last_success, job_duration_seconds, job_last_success]\<rparr>"

definition seeded_config :: Config where
  "seeded_config =
     example_config\<lparr>Metrics :=
       [job_last_success\<lparr>DefaultValue := 42\<rparr>, job_duration_seconds, job_failures_total]\<rparr>"

definition job_runs :: MetricConfig where
  "job_runs =
     \<lparr>Name = ''job:runs'', Description = ''Number of job runs'',
      Type = ''counter'', Labels = [''job_name''], DefaultValue = 0,
      Buckets = [], Objectives = None\<rparr>"

definition colon_config :: Config where
  "colon_config = example_config\<lparr>Metrics := [job_runs]\<rparr>"

definition colon_collector :: "Registry MetricCollector" where
  "colon_collector =
     \<lparr>config = colon_config,
      registry = [''cron_monitor_job:runs''],
      gauges = Map.empty,
      counters = [''job:runs'' \<mapsto>
        NewVec \<lparr>opt_Namespace = ''cron_monitor'', opt_Name = ''job:runs'',
                opt_Help = ''Number of job runs''\<rparr> [''job_name'']],
      histograms = Map.empty,
      summaries = Map.empty\<rparr>"

definition job_latency :: MetricConfig where
  "job_latency =
     \<lparr>Name = ''job_latency'', Description = ''Latency of job start'',
      Type = ''summary'', Labels = [''job_name''], DefaultValue = 0,
      Buckets = [], Objectives = None\<rparr>"

definition latency_config :: Config where
  "latency_config = example_config\<lparr>Metrics := [job_latency]\<rparr>"

definition latency_collector :: "Registry MetricCollector" where
  "latency_collector =
     \<lparr>config = latency_config,
      registry = [''cron_monitor_job_latency''],
      gauges = Map.empty,
      counters = Map.empty,
      histograms = Map.empty,
      summaries = [''job_latency'' \<mapsto>
        NewVec \<lparr>opt_Namespace = ''cron_monitor'', opt_Name = ''job_latency'',
                opt_Help = ''Latency of job start'', opt_Objectives = None\<rparr> [''job_name'']]\<rparr>"

text \<open>The name and the objectives of a metric made by the factory.\<close>

fun metric_name :: "Metric \<Rightarrow> string" where
  "metric_name (GaugeM opts v) = opt_Name opts"
| "metric_name (GaugeVecM vec) = opt_Name (vec_opts vec)"
| "metric_name (CounterM opts v) = opt_Name opts"
| "metric_name (CounterVecM vec) = opt_Name (vec_opts vec)"
| "metric_name (HistogramM opts obs) = opt_Name opts"
| "metric_name (HistogramVecM vec) = opt_Name (vec_opts vec)"
| "metric_name (SummaryM opts obs) = opt_Name opts"
| "metric_name (SummaryVecM vec) = opt_Name (vec_opts vec)"

fun metric_objectives :: "Metric \<Rightarrow> (float64, float64) gomap" where
  "metric_objectives (SummaryM opts obs) = opt_Objectives opts"
| "metric_objectives (SummaryVecM vec) = opt_Objectives (vec_opts vec)"
| "metric_objectives other = None"

definition timeout_labels :: "(string, string) gomap" where
  "timeout_labels =
     Some (fmupd ''job_name'' ''x'' (fmupd ''environment'' ''prod''
            (fmupd ''error_type'' ''timeout'' fmempty)))"


section \<open>Facts about validation\<close>

lemma Validate_None_iff:
  "MetricConfig_Validate m = None \<longleftrightarrow> \<not> offends {} m"
  by (auto simp: MetricConfig_Validate_def offends_def MetricType_defs)

lemma offends_split: "offends E m \<longleftrightarrow> offends {} m \<or> Name m \<in> E"
  by (auto simp: offends_def)

lemma Validate_Some:
  "offends {} m \<Longrightarrow> MetricConfig_Validate m = Some (offence_error m)"
  by (auto simp: MetricConfig_Validate_def offends_def offence_error_def MetricType_defs)

lemma validateMetrics_snd: "snd (validateMetrics seen visited rest) = visited @ rest"
  by (induction rest arbitrary: seen visited) (auto split: option.splits)

lemma validateMetrics_ok_iff:
  "fst (validateMetrics seen visited rest) = None \<longleftrightarrow>
     (\<forall>i<length rest. \<not> offends ({k. seen k} \<union> Name ` set (take i rest)) (rest ! i))"
proof (induction rest arbitrary: seen visited)
  case Nil
  then show ?case by simp
next
  case (Cons m rest)
  have upd: "{k. (seen(Name m := True)) k} = insert (Name m) {k. seen k}" by auto
  show ?case
  proof (cases "offends {k. seen k} m")
    case True
    then have "fst (validateMetrics seen visited (m # rest)) \<noteq> None"
      using Validate_None_iff[of m] offends_split[of "{k. seen k}" m]
      by (auto split: option.splits)
    moreover have "\<not> (\<forall>i<length (m # rest). \<not> offends ({k. seen k} \<union> Name ` set (take i (m # rest))) ((m # rest) ! i))"
      using True by (auto intro!: exI[of _ 0])
    ultimately show ?thesis by blast
  next
    case False
    then have v: "MetricConfig_Validate m = None" and s: "\<not> seen (Name m)"
      using Validate_None_iff[of m] offends_split[of "{k. seen k}" m] by auto
    have "fst (validateMetrics seen visited (m # rest)) =
          fst (validateMetrics (seen(Name m := True)) (visited @ [m]) rest)"
      using v s by simp
    also have "\<dots> = None \<longleftrightarrow>
          (\<forall>i<length rest. \<not> offends (insert (Name m) {k. seen k} \<union> Name ` set (take i rest)) (rest ! i))"
      unfolding upd[symmetric] by (rule Cons.IH)
    also have "\<dots> \<longleftrightarrow> (\<forall>i<length (m # rest). \<not> offends ({k. seen k} \<union> Name ` set (take i (m # rest))) ((m # rest) ! i))"
      using False by (simp add: All_less_Suc2)
    finally show ?thesis .
  qed
qed

lemma validateMetrics_first:
  "i < length rest \<Longrightarrow>
   offends ({k. seen k} \<union> Name ` set (take i rest)) (rest ! i) \<Longrightarrow>
   (\<forall>j<i. \<not> offends ({k. seen k} \<union> Name ` set (take j rest)) (rest ! j)) \<Longrightarrow>
   fst (validateMetrics seen visited rest) = Some (offence_error (rest ! i))"
proof (induction rest arbitrary: seen visited i)
  case Nil
  then show ?case by simp
next
  case (Cons m rest)
  have upd: "{k. (seen(Name m := True)) k} = insert (Name m) {k. seen k}" by auto
  show ?case
  proof (cases i)
    case 0
    with Cons.prems have off: "offends {k. seen k} m" by simp
    show ?thesis
    proof (cases "offends {} m")
      case True
      then show ?thesis using 0 by (simp add: Validate_Some)
    next
      case False
      then have "MetricConfig_Validate m = None" by (simp add: Validate_None_iff)
      moreover have "seen (Name m)" using off False offends_split[of "{k. seen k}" m] by simp
      moreover have "offence_error m = DuplicateName (Name m)"
        using False by (auto simp: offence_error_def offends_def)
      ultimately show ?thesis using 0 by simp
    qed
  next
    case (Suc n)
    from Cons.prems(3) Suc have "\<not> offends {k. seen k} m" by force
    then have v: "MetricConfig_Validate m = None" and s: "\<not> seen (Name m)"
      using Validate_None_iff[of m] offends_split[of "{k. seen k}" m] by auto
    have n: "n < length rest" using Cons.prems(1) Suc by simp
    have a: "offends ({k. (seen(Name m := True)) k} \<union> Name ` set (take n rest)) (rest ! n)"
      using Cons.prems(2) Suc unfolding upd by simp
    have b: "\<forall>j<n. \<not> offends ({k. (seen(Name m := True)) k} \<union> Name ` set (take j rest)) (rest ! j)"
    proof (intro allI impI)
      fix j assume "j < n"
      then have "Suc j < i" using Suc by simp
      with Cons.prems(3) have "\<not> offends ({k. seen k} \<union> Name ` set (take (Suc j) (m # rest))) ((m # rest) ! Suc j)"
        by blast
      then show "\<not> offends ({k. (seen(Name m := True)) k} \<union> Name ` set (take j rest)) (rest ! j)"
        unfolding upd by simp
    qed
    have "fst (validateMetrics seen visited (m # rest)) =
          fst (validateMetrics (seen(Name m := True)) (visited @ [m]) rest)"
      using v s by simp
    also have "\<dots> = Some (offence_error (rest ! n))"
      by (rule Cons.IH[OF n a b])
    finally show ?thesis using Suc by simp
  qed
qed

lemma Config_Validate_metrics:
  assumes "Namespace (Global c) \<noteq> []"
    and "parsedInterval (Global c) \<noteq> 0 \<or> pd (RefreshInterval (Global c)) \<noteq> None"
  shows "fst (Config_Validate pd c) = fst (validateMetrics (\<lambda>k. False) [] (Metrics c))"
    and "Metrics (snd (Config_Validate pd c)) = Metrics c"
    and "Web (snd (Config_Validate pd c)) = Web c"
  using assms validateMetrics_snd[of "\<lambda>k. False" "[]" "Metrics c"]
  by (auto simp: Config_Validate_def ParsedRefreshInterval_def split: prod.splits option.splits sum.splits)

section \<open>Facts about lists\<close>

lemma find_snoc:
  "find P (xs @ [x]) = (case find P xs of Some y \<Rightarrow> Some y | None \<Rightarrow> if P x then Some x else None)"
  by (induction xs) auto

lemma find_Some_set: "find P xs = Some x \<Longrightarrow> x \<in> set xs \<and> P x"
  by (induction xs) (auto split: if_splits)

lemma find_None_names: "find (\<lambda>m. Name m = name) ms = None \<longleftrightarrow> name \<notin> Name ` set ms"
  by (auto simp: find_None_iff)


section \<open>Facts about the metric vectors\<close>

lemma NewVec_sel [simp]:
  "vec_opts (NewVec opts names) = opts" "vec_labels (NewVec opts names) = names"
  "vec_children (NewVec opts names) = Map.empty"
  by (simp_all add: NewVec_def)

lemma With_labels:
  "With vec z labels = Inr (key, vec') \<Longrightarrow> vec_labels vec' = vec_labels vec \<and> vec_opts vec' = vec_opts vec"
  by (auto simp: With_def Let_def split: if_splits option.splits)

lemma put_child_labels [simp]:
  "vec_labels (put_child vec key v) = vec_labels vec" "vec_opts (put_child vec key v) = vec_opts vec"
  by (simp_all add: put_child_def)

lemma len_map_card: "len_map labels = card (fmdom' (entries labels))"
  by (simp add: len_map_def fcard.rep_eq fmdom'_alt_def)

lemma has_key_Some [simp]: "has_key (Some t) k \<longleftrightarrow> k \<in> fmdom' t"
  by (auto simp: has_key_def entries_def fmlookup_dom'_iff)

lemma has_key_None [simp]: "\<not> has_key None k"
  by (simp add: has_key_def entries_def)

lemma has_key_entries: "has_key labels k \<longleftrightarrow> k \<in> fmdom' (entries labels)"
  by (cases labels) (simp_all add: entries_def)

lemma With_ok:
  assumes "fmdom' (entries labels) = set (vec_labels vec)" and "distinct (vec_labels vec)"
  shows "With vec z labels =
     Inr (label_values (vec_labels vec) labels,
          case vec_children vec (label_values (vec_labels vec) labels) of
            None \<Rightarrow> put_child vec (label_values (vec_labels vec) labels) z
          | Some v \<Rightarrow> vec)"
  using assms
  by (auto simp: With_def len_map_card distinct_card list_all_iff has_key_entries put_child_def Let_def
      split: option.splits)

section \<open>Facts about label normalisation\<close>



lemma cleanLabelsIn_find:
  "cleanLabelsIn ms name labels =
     (case find (\<lambda>m. Name m = name) ms of
        None \<Rightarrow> Err (MetricNotFound name)
      | Some m \<Rightarrow> (case fillMissing (Labels m) labels of
                     Inl p \<Rightarrow> Panic p
                   | Inr filled \<Rightarrow> Ok (removeExtra (Labels m) filled)))"
  by (induction ms) auto

lemma cleanLabels_not_found_iff:
  "cleanLabels c name labels = Err e \<longleftrightarrow> e = MetricNotFound name \<and> name \<notin> Name ` set (Metrics (config c))"
  using find_None_names[of name "Metrics (config c)"]
  by (auto simp: cleanLabels_def cleanLabelsIn_find split: option.splits sum.splits)




lemma cleanLabels_counters_upd [simp]:
  "cleanLabels (c\<lparr>counters := x\<rparr>) = cleanLabels c"
  by (simp add: cleanLabels_def fun_eq_iff)

lemma increment_against_counters_upd [simp]:
  "increment_against (c\<lparr>counters := x\<rparr>) = increment_against c"
  by (simp add: increment_against_def fun_eq_iff)

section \<open>Facts about the registry build\<close>

lemma kinds_distinct:
  "MetricTypeGauge \<noteq> MetricTypeCounter" "MetricTypeGauge \<noteq> MetricTypeHistogram"
  "MetricTypeGauge \<noteq> MetricTypeSummary" "MetricTypeCounter \<noteq> MetricTypeHistogram"
  "MetricTypeCounter \<noteq> MetricTypeSummary" "MetricTypeHistogram \<noteq> MetricTypeSummary"
  "MetricTypeCounter \<noteq> MetricTypeGauge" "MetricTypeHistogram \<noteq> MetricTypeGauge"
  "MetricTypeSummary \<noteq> MetricTypeGauge" "MetricTypeHistogram \<noteq> MetricTypeCounter"
  "MetricTypeSummary \<noteq> MetricTypeCounter" "MetricTypeSummary \<noteq> MetricTypeHistogram"
  by (simp_all add: MetricType_defs)

lemma registerMetric_cases:
  assumes "registerMetric reg c m = Inr c'"
  obtains
    (gauge) r where "Type m = MetricTypeGauge"
      "c' = c\<lparr>registry := r, gauges := (gauges c)(Name m \<mapsto>
          NewVec \<lparr>opt_Namespace = Namespace (Global (config c)), opt_Name = Name m,
                   opt_Help = Description m\<rparr> (Labels m))\<rparr>"
  | (counter) r where "Type m = MetricTypeCounter"
      "c' = c\<lparr>registry := r, counters := (counters c)(Name m \<mapsto>
          NewVec \<lparr>opt_Namespace = Namespace (Global (config c)), opt_Name = Name m,
                   opt_Help = Description m\<rparr> (Labels m))\<rparr>"
  | (histogram) r where "Type m = MetricTypeHistogram"
      "c' = c\<lparr>registry := r, histograms := (histograms c)(Name m \<mapsto>
          NewVec \<lparr>opt_Namespace = Namespace (Global (config c)), opt_Name = Name m,
                   opt_Help = Description m, opt_Buckets = Buckets m\<rparr> (Labels m))\<rparr>"
  | (summary) r where "Type m = MetricTypeSummary"
      "c' = c\<lparr>registry := r, summaries := (summaries c)(Name m \<mapsto>
          NewVec \<lparr>opt_Namespace = Namespace (Global (config c)), opt_Name = Name m,
                   opt_Help = Description m, opt_Objectives = Objectives m\<rparr> (Labels m))\<rparr>"
proof -
  consider "Type m = MetricTypeGauge" | "Type m = MetricTypeCounter"
    | "Type m = MetricTypeHistogram" | "Type m = MetricTypeSummary"
    | "Type m \<notin> {MetricTypeGauge, MetricTypeCounter, MetricTypeHistogram, MetricTypeSummary}"
    by blast
  then show thesis
  proof cases
    case 1
    with assms obtain r where
      "c' = c\<lparr>registry := r, gauges := (gauges c)(Name m \<mapsto>
          NewVec \<lparr>opt_Namespace = Namespace (Global (config c)), opt_Name = Name m,
                   opt_Help = Description m\<rparr> (Labels m))\<rparr>"
      by (auto simp: registerMetric_def Let_def kinds_distinct split: sum.splits)
    with 1 show ?thesis by (rule gauge)
  next
    case 2
    with assms obtain r where
      "c' = c\<lparr>registry := r, counters := (counters c)(Name m \<mapsto>
          NewVec \<lparr>opt_Namespace = Namespace (Global (config c)), opt_Name = Name m,
                   opt_Help = Description m\<rparr> (Labels m))\<rparr>"
      by (auto simp: registerMetric_def Let_def kinds_distinct split: sum.splits)
    with 2 show ?thesis by (rule counter)
  next
    case 3
    with assms obtain r where
      "c' = c\<lparr>registry := r, histograms := (histograms c)(Name m \<mapsto>
          NewVec \<lparr>opt_Namespace = Namespace (Global (config c)), opt_Name = Name m,
                   opt_Help = Description m, opt_Buckets = Buckets m\<rparr> (Labels m))\<rparr>"
      by (auto simp: registerMetric_def Let_def kinds_distinct split: sum.splits)
    with 3 show ?thesis by (rule histogram)
  next
    case 4
    with assms obtain r where
      "c' = c\<lparr>registry := r, summaries := (summaries c)(Name m \<mapsto>
          NewVec \<lparr>opt_Namespace = Namespace (Global (config c)), opt_Name = Name m,
                   opt_Help = Description m, opt_Objectives = Objectives m\<rparr> (Labels m))\<rparr>"
      by (auto simp: registerMetric_def Let_def kinds_distinct split: sum.splits)
    with 4 show ?thesis by (rule summary)
  next
    case 5
    with assms show ?thesis by (simp add: registerMetric_def Let_def)
  qed
qed

lemma registerMetric_props:
  assumes "registerMetric reg c m = Inr c'"
  shows "config c' = config c"
    and "Type m \<in> known"
    and "declared c' k name = (if k = Type m \<and> name = Name m then Some (Labels m) else declared c k name)"
  using assms
  by (cases rule: registerMetric_cases;
      simp add: declared_def NewVec_def known_def kinds_distinct)+

lemma registerMetricsFrom_props:
  "registerMetricsFrom reg c ms = Inr c' \<Longrightarrow>
   config c' = config c \<and> (\<forall>m\<in>set ms. Type m \<in> known) \<and>
   (\<forall>k name. declared c' k name =
      (case find (\<lambda>m. Name m = name \<and> Type m = k) (rev ms) of
         Some m \<Rightarrow> Some (Labels m) | None \<Rightarrow> declared c k name))"
proof (induction ms arbitrary: c)
  case Nil
  then show ?case by simp
next
  case (Cons m ms)
  from Cons.prems obtain c1 where r1: "registerMetric reg c m = Inr c1"
    and r2: "registerMetricsFrom reg c1 ms = Inr c'"
    by (auto split: sum.splits)
  note p1 = registerMetric_props[OF r1]
  note ih = Cons.IH[OF r2]
  show ?case using ih p1
    by (auto simp: find_snoc split: option.splits)
qed

lemma NewMetricCollector_props:
  assumes "NewMetricCollector reg (Some cfg) r = Inr c"
  shows "config c = cfg"
    and "\<forall>m\<in>set (Metrics cfg). Type m \<in> known"
    and "declared c k name =
          map_option Labels (find (\<lambda>m. Name m = name \<and> Type m = k) (rev (Metrics cfg)))"
proof -
  let ?c0 = "\<lparr>config = cfg, registry = r, gauges = Map.empty, counters = Map.empty,
             histograms = Map.empty, summaries = Map.empty\<rparr>"
  from assms have b: "registerMetricsFrom reg ?c0 (Metrics cfg) = Inr c"
    by (simp add: NewMetricCollector_def registerMetrics_def)
  note p = registerMetricsFrom_props[OF b]
  have d0: "declared ?c0 k name = None" by (simp add: declared_def)
  show "config c = cfg" using p by simp
  show "\<forall>m\<in>set (Metrics cfg). Type m \<in> known" using p by simp
  show "declared c k name =
          map_option Labels (find (\<lambda>m. Name m = name \<and> Type m = k) (rev (Metrics cfg)))"
    using p d0 by (simp split: option.splits)
qed




section \<open>Facts about the update operations\<close>

lemma perform_config: "config (snd (perform c x)) = config c"
  by (cases x)
     (auto simp: UpdateGauge_def IncrementCounter_def IncrementCounterBy_def ObserveHistogram_def ObserveSummary_def
       split: option.splits result.splits sum.splits prod.splits)

lemma perform_registry: "registry (snd (perform c x)) = registry c"
  by (cases x)
     (auto simp: UpdateGauge_def IncrementCounter_def IncrementCounterBy_def ObserveHistogram_def ObserveSummary_def
       split: option.splits result.splits sum.splits prod.splits)

lemma perform_declared: "declared (snd (perform c x)) k name = declared c k name"
  by (cases x)
     (auto simp: UpdateGauge_def IncrementCounter_def IncrementCounterBy_def ObserveHistogram_def ObserveSummary_def
         declared_def dest: With_labels
       split: option.splits result.splits sum.splits prod.splits)

lemma run_Cons:
  "snd (run c (x # xs)) = snd (run (snd (perform c x)) xs)"
  "fst (run c (x # xs)) = fst (perform c x) # fst (run (snd (perform c x)) xs)"
  by (simp_all split: prod.splits)

lemma run_config: "config (snd (run c xs)) = config c"
proof (induction xs arbitrary: c)
  case Nil show ?case by simp
next
  case (Cons x xs)
  show ?case using Cons.IH[of "snd (perform c x)"] perform_config[of c x]
    by (simp only: run_Cons)
qed

lemma run_registry: "registry (snd (run c xs)) = registry c"
proof (induction xs arbitrary: c)
  case Nil show ?case by simp
next
  case (Cons x xs)
  show ?case using Cons.IH[of "snd (perform c x)"] perform_registry[of c x]
    by (simp only: run_Cons)
qed

lemma run_declared: "declared (snd (run c xs)) k name = declared c k name"
proof (induction xs arbitrary: c)
  case Nil show ?case by simp
next
  case (Cons x xs)
  show ?case using Cons.IH[of "snd (perform c x)"] perform_declared[of c x k name]
    by (simp only: run_Cons)
qed

lemma declared_None_perform:
  assumes "declared c (call_kind x) (call_name x) = None"
  shows "perform c x = (Err (KindNotFound (call_kind x) (call_name x)), c)"
  using assms
  by (cases x)
     (simp_all add: declared_def kinds_distinct UpdateGauge_def IncrementCounter_def
        IncrementCounterBy_def ObserveHistogram_def ObserveSummary_def MetricType_defs)




section \<open>Facts about collectors in use\<close>

lemma registered_names_declared:
  "name \<in> registered_names c \<longleftrightarrow> (\<exists>k. declared c k name \<noteq> None)"
proof
  assume "name \<in> registered_names c"
  then consider "gauges c name \<noteq> None" | "counters c name \<noteq> None"
    | "histograms c name \<noteq> None" | "summaries c name \<noteq> None"
    by (auto simp: registered_names_def)
  then show "\<exists>k. declared c k name \<noteq> None"
  proof cases
    case 1 then show ?thesis by (intro exI[of _ MetricTypeGauge]) (simp add: declared_def)
  next
    case 2 then show ?thesis
      by (intro exI[of _ MetricTypeCounter]) (simp add: declared_def kinds_distinct)
  next
    case 3 then show ?thesis
      by (intro exI[of _ MetricTypeHistogram]) (simp add: declared_def kinds_distinct)
  next
    case 4 then show ?thesis
      by (intro exI[of _ MetricTypeSummary]) (simp add: declared_def kinds_distinct)
  qed
next
  assume "\<exists>k. declared c k name \<noteq> None"
  then show "name \<in> registered_names c"
    by (auto simp: declared_def registered_names_def split: if_splits)
qed

lemma registered_names_run: "registered_names (snd (run c xs)) = registered_names c"
  by (auto simp: registered_names_declared run_declared)

lemma built_names:
  assumes "NewMetricCollector reg (Some cfg) r = Inr c0"
  shows "registered_names c0 \<subseteq> Name ` set (Metrics cfg)"
proof
  fix name assume "name \<in> registered_names c0"
  then obtain k where "declared c0 k name \<noteq> None" by (auto simp: registered_names_declared)
  then obtain m where "find (\<lambda>m. Name m = name \<and> Type m = k) (rev (Metrics cfg)) = Some m"
    using NewMetricCollector_props(3)[OF assms, of k name] by auto
  then have "m \<in> set (Metrics cfg)" "Name m = name"
    by (auto dest: find_Some_set)
  then show "name \<in> Name ` set (Metrics cfg)" by blast
qed


section \<open>Facts about erased default values\<close>

lemma erase_default_fields [simp]:
  "Name (erase_default m) = Name m" "Type (erase_default m) = Type m"
  "Labels (erase_default m) = Labels m" "Description (erase_default m) = Description m"
  "Buckets (erase_default m) = Buckets m" "Objectives (erase_default m) = Objectives m"
  by (simp_all add: erase_default_def)

lemma strip_fields [simp]:
  "registry (strip c) = registry c" "gauges (strip c) = gauges c" "counters (strip c) = counters c"
  "histograms (strip c) = histograms c" "summaries (strip c) = summaries c"
  "Global (config (strip c)) = Global (config c)"
  "Metrics (config (strip c)) = map erase_default (Metrics (config c))"
  by (simp_all add: strip_def erase_defaults_def)

lemma strip_upd [simp]:
  "strip (c\<lparr>gauges := g\<rparr>) = (strip c)\<lparr>gauges := g\<rparr>"
  "strip (c\<lparr>counters := k\<rparr>) = (strip c)\<lparr>counters := k\<rparr>"
  "strip (c\<lparr>histograms := h\<rparr>) = (strip c)\<lparr>histograms := h\<rparr>"
  "strip (c\<lparr>summaries := s\<rparr>) = (strip c)\<lparr>summaries := s\<rparr>"
  "strip (c\<lparr>registry := r\<rparr>) = (strip c)\<lparr>registry := r\<rparr>"
  by (simp_all add: strip_def)

lemma observable_strip [simp]: "observable (strip c) = observable c"
  by (simp add: observable_def)

lemma strip_eq_observable: "strip a = strip b \<Longrightarrow> observable a = observable b"
  by (metis observable_strip)

lemma registerMetric_strip:
  "registerMetric reg (strip c) (erase_default m) = map_sum id strip (registerMetric reg c m)"
  by (simp add: registerMetric_def Let_def split: sum.splits)

lemma registerMetricsFrom_strip:
  "registerMetricsFrom reg (strip c) (map erase_default ms) =
     map_sum id strip (registerMetricsFrom reg c ms)"
proof (induction ms arbitrary: c)
  case Nil
  show ?case by simp
next
  case (Cons m ms)
  show ?case
  proof (cases "registerMetric reg c m")
    case (Inl e)
    then show ?thesis by (simp add: registerMetric_strip)
  next
    case (Inr c1)
    then show ?thesis using Cons.IH[of c1] by (simp add: registerMetric_strip)
  qed
qed

lemma NewMetricCollector_strip:
  "NewMetricCollector reg (Some (erase_defaults cfg)) r =
     map_sum id strip (NewMetricCollector reg (Some cfg) r)"
proof -
  let ?c = "\<lparr>config = cfg, registry = r, gauges = Map.empty, counters = Map.empty,
             histograms = Map.empty, summaries = Map.empty\<rparr>"
  have "strip ?c = \<lparr>config = erase_defaults cfg, registry = r, gauges = Map.empty,
      counters = Map.empty, histograms = Map.empty, summaries = Map.empty\<rparr>"
    by (simp add: strip_def)
  then show ?thesis
    using registerMetricsFrom_strip[of reg ?c "Metrics cfg"]
    by (simp add: NewMetricCollector_def registerMetrics_def erase_defaults_def)
qed

lemma cleanLabelsIn_erase:
  "cleanLabelsIn (map erase_default ms) name labels = cleanLabelsIn ms name labels"
  by (induction ms) (simp_all split: sum.splits)

lemma cleanLabels_strip [simp]: "cleanLabels (strip c) name labels = cleanLabels c name labels"
  by (simp add: cleanLabels_def cleanLabelsIn_erase)

lemma UpdateGauge_strip:
  "UpdateGauge (strip c) n v l = (fst (UpdateGauge c n v l), strip (snd (UpdateGauge c n v l)))"
  by (simp add: UpdateGauge_def split: option.splits result.splits sum.splits prod.splits)

lemma IncrementCounterBy_strip:
  "IncrementCounterBy (strip c) n v l =
     (fst (IncrementCounterBy c n v l), strip (snd (IncrementCounterBy c n v l)))"
  by (simp add: IncrementCounterBy_def split: option.splits result.splits sum.splits prod.splits)

lemma ObserveHistogram_strip:
  "ObserveHistogram (strip c) n v l =
     (fst (ObserveHistogram c n v l), strip (snd (ObserveHistogram c n v l)))"
  by (simp add: ObserveHistogram_def split: option.splits result.splits sum.splits prod.splits)

lemma ObserveSummary_strip:
  "ObserveSummary (strip c) n v l =
     (fst (ObserveSummary c n v l), strip (snd (ObserveSummary c n v l)))"
  by (simp add: ObserveSummary_def split: option.splits result.splits sum.splits prod.splits)

lemma perform_strip: "perform (strip c) x = (fst (perform c x), strip (snd (perform c x)))"
  by (cases x)
     (simp_all add: UpdateGauge_strip IncrementCounterBy_strip IncrementCounter_def
        ObserveHistogram_strip ObserveSummary_strip)

lemma run_strip: "run (strip c) xs = (fst (run c xs), strip (snd (run c xs)))"
proof (induction xs arbitrary: c)
  case Nil
  show ?case by simp
next
  case (Cons x xs)
  show ?case
    using Cons.IH[of "snd (perform c x)"]
    by (simp add: perform_strip split: prod.splits)
qed

section \<open>Facts about the example\<close>

lemma example_built:
  "NewMetricCollector Register (Some example_config) [] = Inr example_collector"
proof -
  define c0 :: "Registry MetricCollector" where
    "c0 = \<lparr>config = example_config, registry = [], gauges = Map.empty, counters = Map.empty,
           histograms = Map.empty, summaries = Map.empty\<rparr>"
  define c1 where
    "c1 = c0\<lparr>registry := [''cron_monitor_job_last_success''],
             gauges := [''job_last_success'' \<mapsto>
               NewVec \<lparr>opt_Namespace = ''cron_monitor'', opt_Name = ''job_last_success'',
                 opt_Help = ''Timestamp of the last successful job execution''\<rparr>
               [''job_name'', ''environment'']]\<rparr>"
  define c2 where
    "c2 = c1\<lparr>registry := [''cron_monitor_job_last_success'',
                            ''cron_monitor_job_duration_seconds''],
             histograms := [''job_duration_seconds'' \<mapsto>
               NewVec \<lparr>opt_Namespace = ''cron_monitor'', opt_Name = ''job_duration_seconds'',
                 opt_Help = ''Duration of job execution in seconds'',
                 opt_Buckets = [0.1, 0.5, 1, 5, 10, 30, 60, 300, 600]\<rparr>
               [''job_name'', ''environment'']]\<rparr>"
  have s1: "registerMetric Register c0 job_last_success = Inr c1"
    by (simp add: registerMetric_def Let_def c0_def c1_def example_config_def
        job_last_success_def MetricType_defs Register_def BuildFQName_def)
  have s2: "registerMetric Register c1 job_duration_seconds = Inr c2"
    by (simp add: registerMetric_def Let_def c0_def c1_def c2_def example_config_def
        job_duration_seconds_def MetricType_defs Register_def BuildFQName_def)
  have s3: "registerMetric Register c2 job_failures_total = Inr example_collector"
    by (simp add: registerMetric_def Let_def c0_def c1_def c2_def example_config_def
        example_collector_def job_failures_total_def MetricType_defs Register_def
        BuildFQName_def)
  have "NewMetricCollector Register (Some example_config) [] =
        registerMetricsFrom Register c0 [job_last_success, job_duration_seconds, job_failures_total]"
    by (simp add: NewMetricCollector_def registerMetrics_def c0_def example_config_def)
  also have "\<dots> = Inr example_collector"
    by (simp add: s1 s2 s3)
  finally show ?thesis .
qed

lemma example_simps:
  "Metrics example_config = [job_last_success, job_duration_seconds, job_failures_total]"
  "config example_collector = example_config"
  "Name job_last_success = ''job_last_success''"
  "Name job_duration_seconds = ''job_duration_seconds''"
  "Name job_failures_total = ''job_failures_total''"
  "Type job_last_success = ''gauge''"
  "Type job_duration_seconds = ''histogram''"
  "Type job_failures_total = ''counter''"
  "Labels job_last_success = [''job_name'', ''environment'']"
  "Labels job_duration_seconds = [''job_name'', ''environment'']"
  "Labels job_failures_total = [''job_name'', ''environment'', ''error_type'']"
  by (simp_all add: example_config_def example_collector_def job_last_success_def
      job_duration_seconds_def job_failures_total_def)

lemma perform_Err:
  assumes "fst (perform c x) = Err e"
  shows "e = KindNotFound (call_kind x) (call_name x)
         \<or> (declared c (call_kind x) (call_name x) \<noteq> None
            \<and> cleanLabels c (call_name x) (call_labels x) = Err e)"
  using assms
  by (cases x)
     (auto simp: UpdateGauge_def IncrementCounter_def IncrementCounterBy_def
        ObserveHistogram_def ObserveSummary_def declared_def kinds_distinct MetricType_defs
      split: option.splits result.splits sum.splits prod.splits if_splits)






lemma registered_Inr:
  "registered reg f m metric = Inr (metric', r') \<Longrightarrow> metric' = metric"
  by (auto simp: registered_def split: sum.splits)

lemma CreateMetric_sanitized_name:
  assumes "CreateMetric reg f m = Inr (metric, r')"
  shows "metric_name metric = BuildFQName (f_namespace f) [] (sanitizeMetricName (Name m))"
  using assms
  by (auto simp: CreateMetric_def Let_def dest!: registered_Inr split: if_splits)

lemma CreateMetric_default_objectives:
  assumes "CreateMetric reg f m = Inr (metric, r')"
    and "Type m = MetricTypeSummary" and "Objectives m = None"
  shows "metric_objectives metric = DefaultObjectives"
  using assms
  by (auto simp: CreateMetric_def Let_def kinds_distinct dest!: registered_Inr split: if_splits)

lemma CreateMetric_seeds_gauge:
  assumes "CreateMetric reg f m = Inr (metric, r')"
    and "Type m = MetricTypeGauge" and "Labels m = []"
  shows "metric = GaugeM \<lparr>opt_Namespace = [],
            opt_Name = BuildFQName (f_namespace f) [] (sanitizeMetricName (Name m)),
            opt_Help = Description m\<rparr> (DefaultValue m)"
  using assms
  by (auto simp: CreateMetric_def Let_def dest!: registered_Inr split: if_splits)

lemma built_names_eq:
  assumes "NewMetricCollector reg (Some cfg) r = Inr c0"
  shows "registered_names c0 = Name ` set (Metrics cfg)"
proof
  show "registered_names c0 \<subseteq> Name ` set (Metrics cfg)" by (rule built_names[OF assms])
  show "Name ` set (Metrics cfg) \<subseteq> registered_names c0"
  proof
    fix name assume "name \<in> Name ` set (Metrics cfg)"
    then obtain m where m: "m \<in> set (Metrics cfg)" "Name m = name" by blast
    then have "find (\<lambda>m'. Name m' = name \<and> Type m' = Type m) (rev (Metrics cfg)) \<noteq> None"
      by (auto simp: find_None_iff)
    then have "declared c0 (Type m) name \<noteq> None"
      using NewMetricCollector_props(3)[OF assms, of "Type m" name] by simp
    then show "name \<in> registered_names c0" by (auto simp: registered_names_declared)
  qed
qed

lemma colon_built:
  "NewMetricCollector Register (Some colon_config) [] = Inr colon_collector"
  by (simp add: NewMetricCollector_def registerMetrics_def registerMetric_def Let_def
      colon_config_def colon_collector_def example_config_def job_runs_def MetricType_defs
      Register_def BuildFQName_def)

lemma latency_built:
  "NewMetricCollector Register (Some latency_config) [] = Inr latency_collector"
  by (simp add: NewMetricCollector_def registerMetrics_def registerMetric_def Let_def
      latency_config_def latency_collector_def example_config_def job_latency_def MetricType_defs
      Register_def BuildFQName_def)

lemma summary_offends:
  "Type m = MetricTypeSummary \<Longrightarrow> len_map (Objectives m) = 0 \<Longrightarrow> offends E m"
  by (simp add: offends_def)

lemma Config_Validate_offender:
  assumes "m \<in> set (Metrics c)" and "offends {} m"
  shows "fst (Config_Validate pd c) \<noteq> None"
proof (cases "Namespace (Global c) \<noteq> [] \<and>
        (parsedInterval (Global c) \<noteq> 0 \<or> pd (RefreshInterval (Global c)) \<noteq> None)")
  case True
  from assms(1) obtain i where i: "i < length (Metrics c)" "Metrics c ! i = m"
    by (auto simp: in_set_conv_nth)
  have "offends ({k. False} \<union> Name ` set (take i (Metrics c))) (Metrics c ! i)"
    using assms(2) i(2) offends_split[of _ m] by blast
  then have "fst (validateMetrics (\<lambda>k. False) [] (Metrics c)) \<noteq> None"
    using validateMetrics_ok_iff[of "\<lambda>k. False" "[]" "Metrics c"] i(1) by blast
  then show ?thesis using Config_Validate_metrics(1)[of c pd] True by simp
next
  case False
  then show ?thesis
    by (auto simp: Config_Validate_def ParsedRefreshInterval_def split: option.splits)
qed

section \<open>The claims\<close>

text \<open>
  Claim C3 (validation contract). For every sequence of metric definitions, validation
  leaves the sequence as it was, examines the definitions in order, and fails exactly when
  some definition has an empty name, is a histogram without buckets, is a summary without
  objectives, has a kind outside the four, or shares its name with an earlier definition;
  the first such definition determines the error. \<open>Config.Validate\<close> runs this loop once
  the global settings have passed their own checks.
\<close>

theorem validation_contract:
  "(fst (validateMetrics (\<lambda>k. False) [] ms) \<noteq> None \<longleftrightarrow>
      (\<exists>i<length ms. offends (earlier ms i) (ms ! i)))
   \<and> (\<forall>i<length ms. offends (earlier ms i) (ms ! i) \<and> (\<forall>j<i. \<not> offends (earlier ms j) (ms ! j))
        \<longrightarrow> fst (validateMetrics (\<lambda>k. False) [] ms) = Some (offence_error (ms ! i)))
   \<and> snd (validateMetrics (\<lambda>k. False) [] ms) = ms
   \<and> (Namespace (Global c) \<noteq> [] \<and>
        (parsedInterval (Global c) \<noteq> 0 \<or> pd (RefreshInterval (Global c)) \<noteq> None) \<longrightarrow>
        fst (Config_Validate pd c) = fst (validateMetrics (\<lambda>k. False) [] (Metrics c)) \<and>
        Metrics (snd (Config_Validate pd c)) = Metrics c)"
proof (intro conjI allI impI)
  show "fst (validateMetrics (\<lambda>k. False) [] ms) \<noteq> None \<longleftrightarrow>
      (\<exists>i<length ms. offends (earlier ms i) (ms ! i))"
    using validateMetrics_ok_iff[of "\<lambda>k. False" "[]" ms] by (auto simp: earlier_def)
next
  fix i
  assume "i < length ms"
    and "offends (earlier ms i) (ms ! i) \<and> (\<forall>j<i. \<not> offends (earlier ms j) (ms ! j))"
  then show "fst (validateMetrics (\<lambda>k. False) [] ms) = Some (offence_error (ms ! i))"
    using validateMetrics_first[of i ms "\<lambda>k. False" "[]"] by (simp add: earlier_def)
next
  show "snd (validateMetrics (\<lambda>k. False) [] ms) = ms"
    by (simp add: validateMetrics_snd)
next
  assume "Namespace (Global c) \<noteq> [] \<and>
        (parsedInterval (Global c) \<noteq> 0 \<or> pd (RefreshInterval (Global c)) \<noteq> None)"
  then show "fst (Config_Validate pd c) = fst (validateMetrics (\<lambda>k. False) [] (Metrics c))"
    and "Metrics (snd (Config_Validate pd c)) = Metrics c"
    using Config_Validate_metrics[of c pd] by simp_all
qed

theorem validation_contract_witness:
  "(2::nat) < length (Metrics duplicate_config)
   \<and> offends (earlier (Metrics duplicate_config) 2) (Metrics duplicate_config ! 2)
   \<and> \<not> offends (earlier (Metrics duplicate_config) 0) (Metrics duplicate_config ! 0)
   \<and> \<not> offends (earlier (Metrics duplicate_config) 1) (Metrics duplicate_config ! 1)
   \<and> Namespace (Global duplicate_config) \<noteq> []
   \<and> parse_30s (RefreshInterval (Global duplicate_config)) \<noteq> None
   \<and> fst (Config_Validate parse_30s duplicate_config) = Some (DuplicateName ''job_last_success'')
   \<and> Metrics (snd (Config_Validate parse_30s duplicate_config)) = Metrics duplicate_config"
proof -
  have ms: "Metrics duplicate_config = [job_last_success, job_duration_seconds, job_last_success]"
    and g: "Global duplicate_config =
      \<lparr>Namespace = ''cron_monitor'', RefreshInterval = ''30s'', parsedInterval = 0\<rparr>"
    by (simp_all add: duplicate_config_def example_config_def)
  have len: "(2::nat) < length (Metrics duplicate_config)" by (simp add: ms)
  have off2: "offends (earlier (Metrics duplicate_config) 2) (Metrics duplicate_config ! 2)"
    by (simp add: ms offends_def earlier_def job_last_success_def)
  have off0: "\<not> offends (earlier (Metrics duplicate_config) 0) (Metrics duplicate_config ! 0)"
    by (simp add: ms offends_def earlier_def job_last_success_def MetricType_defs)
  have off1: "\<not> offends (earlier (Metrics duplicate_config) 1) (Metrics duplicate_config ! 1)"
    by (simp add: ms offends_def earlier_def job_last_success_def job_duration_seconds_def
        MetricType_defs)
  have first: "\<forall>j<2. \<not> offends (earlier (Metrics duplicate_config) j) (Metrics duplicate_config ! j)"
    using off0 off1 by (simp add: less_Suc_eq numeral_2_eq_2)
  have glob: "Namespace (Global duplicate_config) \<noteq> []"
    "parse_30s (RefreshInterval (Global duplicate_config)) \<noteq> None"
    by (simp_all add: g parse_30s_def)
  have err: "offence_error (Metrics duplicate_config ! 2) = DuplicateName ''job_last_success''"
    by (simp add: ms offence_error_def job_last_success_def MetricType_defs)
  from validation_contract[of "Metrics duplicate_config" duplicate_config parse_30s]
    len off2 first glob err
  have "fst (Config_Validate parse_30s duplicate_config) = Some (DuplicateName ''job_last_success'')
     \<and> Metrics (snd (Config_Validate parse_30s duplicate_config)) = Metrics duplicate_config"
    by (metis (no_types, lifting))
  then show ?thesis using len off2 off0 off1 glob by blast
qed

text \<open>
  Claim C2 (kind-checked lookup). In a collector built from a configuration, at any later
  moment, an update operation on a name that the configuration does not define with the
  kind of the operation (the name is not defined at all, or is defined with another kind)
  fails with the operation's not-found error and leaves the collector, its registry and
  every aggregation as they were.
\<close>

theorem kind_checked_lookup:
  assumes "NewMetricCollector reg (Some cfg) r = Inr c0"
    and "\<not> (\<exists>m\<in>set (Metrics cfg). Name m = call_name x \<and> Type m = call_kind x)"
  shows "perform (snd (run c0 xs)) x =
           (Err (KindNotFound (call_kind x) (call_name x)), snd (run c0 xs))"
proof -
  have "find (\<lambda>m. Name m = call_name x \<and> Type m = call_kind x) (rev (Metrics cfg)) = None"
    using assms(2) by (auto simp: find_None_iff)
  then have "declared c0 (call_kind x) (call_name x) = None"
    using NewMetricCollector_props(3)[OF assms(1)] by simp
  then have "declared (snd (run c0 xs)) (call_kind x) (call_name x) = None"
    by (simp add: run_declared)
  then show ?thesis by (rule declared_None_perform)
qed

theorem kind_checked_lookup_witness:
  "NewMetricCollector Register (Some example_config) [] = Inr example_collector
   \<and> UpdateGauge example_collector ''job_failures_total'' 1 timeout_labels =
       (Err (KindNotFound ''gauge'' ''job_failures_total''), example_collector)
   \<and> UpdateGauge example_collector ''unknown_metric'' 1 (Some fmempty) =
       (Err (KindNotFound ''gauge'' ''unknown_metric''), example_collector)"
proof -
  have a: "\<not> (\<exists>m\<in>set (Metrics example_config).
             Name m = call_name (CallUpdateGauge ''job_failures_total'' 1 timeout_labels)
             \<and> Type m = call_kind (CallUpdateGauge ''job_failures_total'' 1 timeout_labels))"
    by (simp add: example_simps)
  have b: "\<not> (\<exists>m\<in>set (Metrics example_config).
             Name m = call_name (CallUpdateGauge ''unknown_metric'' 1 (Some fmempty))
             \<and> Type m = call_kind (CallUpdateGauge ''unknown_metric'' 1 (Some fmempty)))"
    by (simp add: example_simps)
  show ?thesis
    using kind_checked_lookup[OF example_built a, of "[]"]
      kind_checked_lookup[OF example_built b, of "[]"] example_built
    by simp
qed

text \<open>
  Claim C9 (registered names are defined names). In a collector built by
  \<open>NewMetricCollector\<close>, at any later moment, every name in one of the four maps is the
  name of a definition of the configuration; for such a name \<open>cleanLabels\<close> returns no
  error, and no update operation returns the error of \<open>cleanLabels\<close>.
\<close>

theorem registered_names_defined:
  assumes "NewMetricCollector reg (Some cfg) r = Inr c0"
  shows "registered_names (snd (run c0 xs)) \<subseteq> Name ` set (Metrics (config (snd (run c0 xs))))
     \<and> (\<forall>name labels e. name \<in> registered_names (snd (run c0 xs)) \<longrightarrow>
           cleanLabels (snd (run c0 xs)) name labels \<noteq> Err e)
     \<and> (\<forall>x name. fst (perform (snd (run c0 xs)) x) \<noteq> Err (MetricNotFound name))"
proof -
  let ?c = "snd (run c0 xs)"
  have cfg: "config ?c = cfg"
    using NewMetricCollector_props(1)[OF assms] by (simp add: run_config)
  have sub: "registered_names ?c \<subseteq> Name ` set (Metrics cfg)"
    using built_names[OF assms] by (simp add: registered_names_run)
  have clean: "\<And>name labels e. name \<in> registered_names ?c \<Longrightarrow> cleanLabels ?c name labels \<noteq> Err e"
    using sub cfg cleanLabels_not_found_iff[of ?c] by auto
  have ops: "\<And>x name. fst (perform ?c x) \<noteq> Err (MetricNotFound name)"
  proof
    fix x name
    assume e: "fst (perform ?c x) = Err (MetricNotFound name)"
    from perform_Err[OF e] have "declared ?c (call_kind x) (call_name x) \<noteq> None"
      and "cleanLabels ?c (call_name x) (call_labels x) = Err (MetricNotFound name)"
      by auto
    moreover from this(1) have "call_name x \<in> registered_names ?c"
      by (auto simp: registered_names_declared)
    ultimately show False using clean by blast
  qed
  show ?thesis using sub cfg clean ops by auto
qed

theorem registered_names_defined_witness:
  "NewMetricCollector Register (Some example_config) [] = Inr example_collector
   \<and> ''job_last_success'' \<in> registered_names example_collector
   \<and> ''job_last_success'' \<in> Name ` set (Metrics (config example_collector))
   \<and> cleanLabels example_collector ''job_last_success'' (Some fmempty)
        \<noteq> Err (MetricNotFound ''job_last_success'')"
proof -
  have r: "''job_last_success'' \<in> registered_names example_collector"
    by (simp add: registered_names_def example_collector_def)
  from registered_names_defined[OF example_built, of "[]"] r example_built
  show ?thesis by auto
qed






text \<open>
  Claim C10 (the default value of a gauge has no effect). For two configurations that
  are identical except for the default values of their gauge definitions,
  \<open>NewMetricCollector\<close> fails with the same error on both or builds collectors with the
  same registry and the same four maps, and every sequence of update operations gives the
  same outcomes and leaves the same registry and maps on both.
\<close>

theorem default_value_ignored:
  assumes "erase_defaults cfg1 = erase_defaults cfg2"
  shows "(case (NewMetricCollector reg (Some cfg1) r, NewMetricCollector reg (Some cfg2) r) of
            (Inl e1, Inl e2) \<Rightarrow> e1 = e2
          | (Inr c1, Inr c2) \<Rightarrow>
              observable c1 = observable c2 \<and>
              (\<forall>xs. fst (run c1 xs) = fst (run c2 xs) \<and>
                    observable (snd (run c1 xs)) = observable (snd (run c2 xs)))
          | _ \<Rightarrow> False)"
proof -
  have eq: "map_sum id strip (NewMetricCollector reg (Some cfg1) r) =
            map_sum id strip (NewMetricCollector reg (Some cfg2) r)"
    using assms NewMetricCollector_strip[of reg cfg1 r] NewMetricCollector_strip[of reg cfg2 r]
    by simp
  show ?thesis
  proof (cases "NewMetricCollector reg (Some cfg1) r")
    case (Inl e1)
    with eq show ?thesis by (cases "NewMetricCollector reg (Some cfg2) r") simp_all
  next
    case (Inr c1)
    with eq obtain c2 where c2: "NewMetricCollector reg (Some cfg2) r = Inr c2"
      and s: "strip c1 = strip c2"
      by (cases "NewMetricCollector reg (Some cfg2) r") simp_all
    have o: "observable c1 = observable c2"
      using s by (rule strip_eq_observable)
    have "\<And>xs. fst (run c1 xs) = fst (run c2 xs) \<and>
                observable (snd (run c1 xs)) = observable (snd (run c2 xs))"
    proof -
      fix xs
      have "run (strip c1) xs = run (strip c2) xs" using s by simp
      then have "fst (run c1 xs) = fst (run c2 xs)"
        and "strip (snd (run c1 xs)) = strip (snd (run c2 xs))"
        by (simp_all add: run_strip)
      then show "fst (run c1 xs) = fst (run c2 xs) \<and>
                observable (snd (run c1 xs)) = observable (snd (run c2 xs))"
        by (blast intro: strip_eq_observable)
    qed
    with Inr c2 o show ?thesis by simp
  qed
qed

theorem default_value_ignored_witness:
  "erase_defaults example_config = erase_defaults seeded_config
   \<and> example_config \<noteq> seeded_config
   \<and> (\<exists>c2. NewMetricCollector Register (Some seeded_config) [] = Inr c2
         \<and> observable c2 = observable example_collector
         \<and> (\<forall>xs. fst (run example_collector xs) = fst (run c2 xs) \<and>
               observable (snd (run example_collector xs)) = observable (snd (run c2 xs))))"
proof -
  have e: "erase_defaults example_config = erase_defaults seeded_config"
    by (simp add: erase_defaults_def seeded_config_def example_config_def erase_default_def
        job_last_success_def job_duration_seconds_def job_failures_total_def MetricType_defs)
  have ne: "example_config \<noteq> seeded_config"
  proof
    assume "example_config = seeded_config"
    then have "Metrics example_config = Metrics seeded_config" by simp
    then show False
      by (simp add: seeded_config_def example_config_def job_last_success_def)
  qed
  from default_value_ignored[OF e, of Register "[]"] example_built
  have "\<exists>c2. NewMetricCollector Register (Some seeded_config) [] = Inr c2
         \<and> observable c2 = observable example_collector
         \<and> (\<forall>xs. fst (run example_collector xs) = fst (run c2 xs) \<and>
               observable (snd (run example_collector xs)) = observable (snd (run c2 xs)))"
    by (cases "NewMetricCollector Register (Some seeded_config) []") auto
  with e ne show ?thesis by blast
qed

text \<open>
  Claim C1 (label normalisation), evaluated where the code departs from it. For a label
  map that is not nil the claim holds (\<open>cleanLabels_normalizes\<close>,
  \<open>cleanLabels_not_found_iff\<close>). A nil label map, which an update request without a
  \<open>labels\<close> field carries, makes \<open>cleanLabels\<close> panic when the metric declares a label:
  the filler is stored into the nil map.
\<close>

theorem nil_label_map_panics:
  "cleanLabels example_collector ''job_last_success'' None = Panic NilMapAssignment
   \<and> UpdateGauge example_collector ''job_last_success'' 1700000000 None =
       (Panic NilMapAssignment, example_collector)"
  by (simp add: UpdateGauge_def cleanLabels_def example_simps example_collector_def)

text \<open>
  Claim C5 (sanitized-name keying), evaluated where the code departs from it. The
  collector registers and stores a metric under the name as the configuration gives it:
  the counter \<open>job:runs\<close> is found under that name and not under \<open>job_runs\<close>, the name
  that \<open>sanitizeMetricName\<close> of the metric factory gives.
\<close>

theorem collector_keys_raw_name:
  "NewMetricCollector Register (Some colon_config) [] = Inr colon_collector
   \<and> registered_names colon_collector = {''job:runs''}
   \<and> registry colon_collector = [''cron_monitor_job:runs'']
   \<and> sanitizeMetricName ''job:runs'' = ''job_runs''
   \<and> fst (IncrementCounter colon_collector ''job:runs'' (Some fmempty)) = Ok ()
   \<and> IncrementCounter colon_collector ''job_runs'' (Some fmempty) =
       (Err (KindNotFound ''counter'' ''job_runs''), colon_collector)"
proof -
  have n: "registered_names colon_collector = {''job:runs''}"
    by (simp add: registered_names_def colon_collector_def)
  have r: "registry colon_collector = [''cron_monitor_job:runs'']"
    by (simp add: colon_collector_def)
  have s: "sanitizeMetricName ''job:runs'' = ''job_runs''"
    by (simp add: sanitizeMetricName_def keep_rune_def byte_def)
  have c: "cleanLabels colon_collector ''job:runs'' (Some fmempty) =
           Ok (Some (fmupd ''job_name'' Filler fmempty))"
    by (simp add: cleanLabels_def colon_collector_def colon_config_def job_runs_def
        removeExtra_def)
  have d: "fmdom' (entries (Some (fmupd ''job_name'' Filler fmempty))) =
           set (vec_labels (NewVec opts [''job_name'']))" for opts :: Opts
    by (simp add: entries_def)
  have ok: "fst (IncrementCounter colon_collector ''job:runs'' (Some fmempty)) = Ok ()"
    using With_ok[OF d, of _ "0::real"] c
    by (simp add: IncrementCounter_def IncrementCounterBy_def colon_collector_def)
  have nf: "IncrementCounter colon_collector ''job_runs'' (Some fmempty) =
       (Err (KindNotFound ''counter'' ''job_runs''), colon_collector)"
    by (simp add: IncrementCounter_def IncrementCounterBy_def colon_collector_def)
  show ?thesis using colon_built n r s ok nf by simp
qed

text \<open>
  Claim C6 (summary objectives), as amended. A summary definition whose objectives are
  absent or empty is rejected by validation: \<open>MetricConfig.Validate\<close> reports the missing
  objectives (or the empty name, which it checks first), and no configuration that holds
  such a definition validates. The claim as stated fails: no default objectives stand in.
\<close>

theorem summary_objectives_required:
  assumes "Type m = MetricTypeSummary" and "len_map (Objectives m) = 0"
  shows "MetricConfig_Validate m =
           Some (if Name m = [] then EmptyName else MissingObjectives (Name m))
     \<and> (m \<in> set (Metrics c) \<longrightarrow> fst (Config_Validate pd c) \<noteq> None)"
proof -
  have "MetricConfig_Validate m =
           Some (if Name m = [] then EmptyName else MissingObjectives (Name m))"
    using assms by (simp add: MetricConfig_Validate_def kinds_distinct)
  moreover have "m \<in> set (Metrics c) \<longrightarrow> fst (Config_Validate pd c) \<noteq> None"
    using Config_Validate_offender[of m c pd] summary_offends[OF assms] by blast
  ultimately show ?thesis by blast
qed

theorem summary_objectives_required_witness:
  "Type job_latency = MetricTypeSummary
   \<and> len_map (Objectives job_latency) = 0
   \<and> job_latency \<in> set (Metrics latency_config)
   \<and> MetricConfig_Validate job_latency = Some (MissingObjectives ''job_latency'')
   \<and> fst (Config_Validate parse_30s latency_config) \<noteq> None"
proof -
  have t: "Type job_latency = MetricTypeSummary"
    by (simp add: job_latency_def MetricType_defs)
  have l: "len_map (Objectives job_latency) = 0"
    by (simp add: job_latency_def len_map_def entries_def)
  have i: "job_latency \<in> set (Metrics latency_config)"
    by (simp add: latency_config_def)
  have n: "Name job_latency = ''job_latency''" by (simp add: job_latency_def)
  from summary_objectives_required[OF t l, of latency_config parse_30s] i n
  have "MetricConfig_Validate job_latency = Some (MissingObjectives ''job_latency'')"
    and "fst (Config_Validate parse_30s latency_config) \<noteq> None"
    by simp_all
  with t l i show ?thesis by blast
qed

text \<open>
  The summary definition \<open>job_latency\<close> has no objectives: it is rejected, and the
  collector built from it without validation has a summary without objectives.
\<close>

theorem summary_without_objectives_rejected:
  "MetricConfig_Validate job_latency = Some (MissingObjectives ''job_latency'')
   \<and> fst (Config_Validate parse_30s latency_config) = Some (MissingObjectives ''job_latency'')
   \<and> NewMetricCollector Register (Some latency_config) [] = Inr latency_collector
   \<and> summaries latency_collector ''job_latency'' =
        Some (NewVec \<lparr>opt_Namespace = ''cron_monitor'', opt_Name = ''job_latency'',
                opt_Help = ''Latency of job start'', opt_Objectives = None\<rparr> [''job_name''])
   \<and> DefaultObjectives \<noteq> None"
proof -
  have v: "MetricConfig_Validate job_latency = Some (MissingObjectives ''job_latency'')"
    by (simp add: MetricConfig_Validate_def job_latency_def MetricType_defs len_map_def
        entries_def)
  have c: "fst (Config_Validate parse_30s latency_config) = Some (MissingObjectives ''job_latency'')"
    using v
    by (simp add: Config_Validate_def ParsedRefreshInterval_def latency_config_def
        example_config_def parse_30s_def)
  have s: "summaries latency_collector ''job_latency'' =
        Some (NewVec \<lparr>opt_Namespace = ''cron_monitor'', opt_Name = ''job_latency'',
                opt_Help = ''Latency of job start'', opt_Objectives = None\<rparr> [''job_name''])"
    by (simp add: latency_collector_def)
  show ?thesis using v c s latency_built by (simp add: DefaultObjectives_def)
qed

end
